theory Spec2Isabelle
  imports Complex_Main "HOL-Library.Sublist"
begin

section \<open>The enterprise support tool server (src/index.ts)\<close>

text \<open>
  The server answers tool calls over a database that is read once at start-up and never
  written. Modelled here are the handlers lookup_customer, get_open_tickets and
  get_response_guidance with the two helpers they call; check_escalation_rules, whose
  argument is confined to the four tiers by its schema, is not needed for what follows.
  Every handler is a function of the database, of its arguments and of
  what the JavaScript runtime supplies (the clock, the parsing of dates, the printing of
  numbers). A handler either returns a payload object, which the source then serialises
  with \<^verbatim>\<open>JSON.stringify\<close>, or throws; the model returns the payload object
  itself, before serialisation, and a thrown exception is the left summand of a sum type.
\<close>

subsection \<open>Strings\<close>

text \<open>
  A string is the sequence of bytes the source file and the data file hold (UTF-8). On
  well-formed strings, equality and containment of byte sequences are equality and
  containment of the JavaScript strings they encode.
\<close>

text \<open>\<^verbatim>\<open>s.includes(t)\<close>: \<open>t\<close> occurs in \<open>s\<close> as a contiguous run.\<close>

definition includes_str :: "string \<Rightarrow> string \<Rightarrow> bool" where
  "includes_str s searchString = sublist searchString s"

text \<open>\<^verbatim>\<open>xs.includes(x)\<close> on an array\<close>

definition includes_arr :: "'a list \<Rightarrow> 'a \<Rightarrow> bool" where
  "includes_arr xs x = (x \<in> set xs)"

text \<open>\<^verbatim>\<open>xs.join(sep)\<close>\<close>

fun join :: "string \<Rightarrow> string list \<Rightarrow> string" where
  "join sep [] = []"
| "join sep [x] = x"
| "join sep (x # y # ys) = x @ sep @ join sep (y # ys)"

text \<open>\<^verbatim>\<open>xs.push(x)\<close>, returning the array after the call.\<close>

definition push :: "'a list \<Rightarrow> 'a \<Rightarrow> 'a list" where
  "push xs x = xs @ [x]"

subsection \<open>The data model\<close>

text \<open>
  A JSON number is a finite double, hence a rational; the comparisons the source makes
  on numbers are exact on them.
\<close>

record Contact =
  name :: string
  role :: string
  email :: string
  primary :: bool

record ApiUsage =
  monthlyTokens :: rat
  monthlyLimit :: rat
  utilizationPercent :: rat

record SupportHistory =
  totalTickets :: rat
  avgResolutionHours :: rat
  csat :: rat

record Customer =
  cid :: string
  company :: string
  tier :: string
  accountManager :: "string option"
  contractValue :: rat
  renewalDate :: string
  products :: "string list"
  apiUsage :: ApiUsage
  knownIssues :: "string list"
  supportHistory :: SupportHistory
  contacts :: "Contact list"
  flags :: "string list"

record Ticket =
  tid :: string
  customerId :: string
  subject :: string
  status :: string
  priority :: string
  createdAt :: string
  lastUpdated :: string
  assignee :: string
  description :: string
  tags :: "string list"

record EscalationRule =
  maxResponseTime :: string
  escalateTo :: string
  autoEscalateAfter :: string

record Database =
  customers :: "Customer list"
  tickets :: "Ticket list"
  escalationRules :: "string \<rightharpoonup> EscalationRule"

text \<open>
  What the runtime supplies: \<^verbatim>\<open>Date.now()\<close> in milliseconds,
  \<^verbatim>\<open>new Date(s).getTime()\<close> (\<open>None\<close> is \<^verbatim>\<open>NaN\<close>, the time of an
  invalid date), \<^verbatim>\<open>n.toLocaleString()\<close>, the printing of a number inside a
  template literal, and the lower-casing of a string.
\<close>

record Runtime =
  Date_now :: int
  Date_getTime :: "string \<Rightarrow> int option"
  toLocaleString :: "rat \<Rightarrow> string"
  numberToString :: "rat \<Rightarrow> string"
  lowerCase :: "string \<Rightarrow> string"

text \<open>
  \<^verbatim>\<open>s.toLowerCase()\<close> follows the Unicode case tables and their special cases
  (a capital sigma that ends a word becomes the final form, for one). The model does
  not fix them: lower-casing is whatever the runtime supplies, and the one fact kept
  of it is that the empty string, which has nothing to lower, stays empty.
\<close>

definition toLowerCase :: "Runtime \<Rightarrow> string \<Rightarrow> string" where
  "toLowerCase rt s = (if s = [] then [] else lowerCase rt s)"

subsection \<open>Reading a property of the rule table\<close>

text \<open>
  \<^verbatim>\<open>database.escalationRules[key]\<close> reads a property of an object made by
  \<^verbatim>\<open>JSON.parse\<close>. A key of the table gives its rule. Any other key gives
  \<^verbatim>\<open>undefined\<close>, unless it names a property of \<^verbatim>\<open>Object.prototype\<close>: then
  the read gives that inherited function or object, which has neither a
  \<^verbatim>\<open>maxResponseTime\<close> nor an \<^verbatim>\<open>escalateTo\<close>.
\<close>

datatype property = Undefined | Rule EscalationRule | Inherited

definition objectPrototypeKeys :: "string list" where
  "objectPrototypeKeys =
     [''constructor'', ''__defineGetter__'', ''__defineSetter__'', ''hasOwnProperty'',
      ''__lookupGetter__'', ''__lookupSetter__'', ''isPrototypeOf'',
      ''propertyIsEnumerable'', ''toString'', ''valueOf'', ''__proto__'',
      ''toLocaleString'']"

definition getProperty :: "(string \<rightharpoonup> EscalationRule) \<Rightarrow> string \<Rightarrow> property" where
  "getProperty rules key =
     (case rules key of
        Some r \<Rightarrow> Rule r
      | None \<Rightarrow> if key \<in> set objectPrototypeKeys then Inherited else Undefined)"

text \<open>
  \<^verbatim>\<open>p?.maxResponseTime\<close>: \<open>None\<close> is \<^verbatim>\<open>undefined\<close>. Without the
  \<^verbatim>\<open>?\<close>, reading a property of \<^verbatim>\<open>undefined\<close> throws a TypeError.
\<close>

datatype js_error = TypeError

fun optMaxResponseTime :: "property \<Rightarrow> string option" where
  "optMaxResponseTime Undefined = None"
| "optMaxResponseTime (Rule r) = Some (maxResponseTime r)"
| "optMaxResponseTime Inherited = None"

fun getEscalateTo :: "property \<Rightarrow> js_error + string option" where
  "getEscalateTo Undefined = Inl TypeError"
| "getEscalateTo (Rule r) = Inr (Some (escalateTo r))"
| "getEscalateTo Inherited = Inr None"

text \<open>
  \<^verbatim>\<open>x || d\<close> on a string that may be \<^verbatim>\<open>undefined\<close>: the empty string is
  falsy, as \<^verbatim>\<open>undefined\<close> is.
\<close>

fun orElse :: "string option \<Rightarrow> string \<Rightarrow> string" where
  "orElse None d = d"
| "orElse (Some x) d = (if x = [] then d else x)"

text \<open>A string that may be \<^verbatim>\<open>undefined\<close>, inside a template literal.\<close>

fun templateString :: "string option \<Rightarrow> string" where
  "templateString None = ''undefined''"
| "templateString (Some x) = x"


subsection \<open>generateSupportGuidance\<close>

text \<open>
  The messages, as the bytes of the source file; each named after the condition that
  pushes it.
\<close>

definition msgStrategicAccount :: string where
  "msgStrategicAccount =
     [CHR 0xC3, CHR 0xB0, CHR 0xC5, CHR 0xB8, CHR 0xE2, CHR 0x80, CHR 0x9D, CHR 0xC2, CHR 0xB4]
     @ '' STRATEGIC ACCOUNT - White-glove service required''"

definition msgCcAccountManager :: string where
  "msgCcAccountManager = ''Always CC account manager on responses''"

definition msgProactiveUpdates :: string where
  "msgProactiveUpdates = ''Proactive status updates every 2 hours for open issues''"

definition msgEnterprise :: string where
  "msgEnterprise = ''Enterprise customer - Prioritize and personalize''"

definition msgLoopInAccountManager :: string where
  "msgLoopInAccountManager = ''Loop in account manager for complex issues''"

definition msgHighValue :: string where
  "msgHighValue =
     [CHR 0xC3, CHR 0xB0, CHR 0xC5, CHR 0xB8, CHR 0xE2, CHR 0x80, CHR 0x99, CHR 0xC2, CHR 0xB0]
     @ '' High-value account - Extra care on all interactions''"

definition msgApproachingRenewal :: string where
  "msgApproachingRenewal =
     [CHR 0xC3, CHR 0xA2, CHR 0xC5, CHR 0xA1, CHR 0xC2, CHR 0xA0, CHR 0xC3, CHR 0xAF, CHR 0xC2,
      CHR 0xB8]
     @ '' Renewal approaching - Ensure positive experience''"

definition msgExpansionOpportunity :: string where
  "msgExpansionOpportunity =
     [CHR 0xC3, CHR 0xB0, CHR 0xC5, CHR 0xB8, CHR 0xE2, CHR 0x80, CHR 0x9C, CHR 0xCB, CHR 0x86]
     @ '' Expansion opportunity - Note upsell potential''"

definition msgComplianceSensitive :: string where
  "msgComplianceSensitive =
     [CHR 0xC3, CHR 0xB0, CHR 0xC5, CHR 0xB8, CHR 0xE2, CHR 0x80, CHR 0x9D, CHR 0xE2, CHR 0x80,
      CHR 0x99]
     @ '' Compliance-sensitive - Document all interactions thoroughly''"

definition msgApproachingLimit :: string where
  "msgApproachingLimit =
     [CHR 0xC3, CHR 0xA2, CHR 0xC5, CHR 0xA1, CHR 0xC2, CHR 0xA1]
     @ '' Approaching API limit - Proactively discuss upgrade options''"

definition msgKnownIssues :: "string list \<Rightarrow> string" where
  "msgKnownIssues issues =
     [CHR 0xC3, CHR 0xB0, CHR 0xC5, CHR 0xB8, CHR 0xE2, CHR 0x80, CHR 0x9C, CHR 0xE2, CHR 0x80,
      CHR 0xB9]
     @ '' Known issues to be aware of: '' @ join ''; '' issues"

record SupportGuidance =
  priorityLevel :: string
  responseTimeTarget :: string
  keyGuidance :: "string list"
  sg_accountManager :: "string option"

definition generateSupportGuidance :: "Database \<Rightarrow> Customer \<Rightarrow> SupportGuidance" where
  "generateSupportGuidance database customer =
     (let guidance = [];
          guidance =
            (if tier customer = ''Enterprise Plus'' then
               push (push (push guidance msgStrategicAccount) msgCcAccountManager)
                 msgProactiveUpdates
             else if tier customer = ''Enterprise'' then
               push (push guidance msgEnterprise) msgLoopInAccountManager
             else guidance);
          guidance =
            (if includes_arr (flags customer) ''HIGH_VALUE''
             then push guidance msgHighValue else guidance);
          guidance =
            (if includes_arr (flags customer) ''APPROACHING_RENEWAL''
             then push guidance msgApproachingRenewal else guidance);
          guidance =
            (if includes_arr (flags customer) ''EXPANSION_OPPORTUNITY''
             then push guidance msgExpansionOpportunity else guidance);
          guidance =
            (if includes_arr (flags customer) ''COMPLIANCE_SENSITIVE''
             then push guidance msgComplianceSensitive else guidance);
          guidance =
            (if utilizationPercent (apiUsage customer) \<ge> 90
             then push guidance msgApproachingLimit else guidance);
          guidance =
            (if length (knownIssues customer) > 0
             then push guidance (msgKnownIssues (knownIssues customer)) else guidance)
      in \<lparr> priorityLevel =
             (if includes_str (tier customer) ''Enterprise'' then ''HIGH'' else ''STANDARD''),
           responseTimeTarget =
             orElse (optMaxResponseTime (getProperty (escalationRules database) (tier customer)))
               ''24 hours'',
           keyGuidance = guidance,
           sg_accountManager = accountManager customer \<rparr>)"

subsection \<open>generateResponseGuidance\<close>

record GuidanceCustomer =
  gc_company :: string
  gc_tier :: string
  gc_primaryContact :: "string option"

record ResponseGuidance =
  rg_customer :: GuidanceCustomer
  issueType :: string
  responseTemplate :: string
  toneGuidance :: "string list"
  escalationPath :: property
  additionalContext :: "string list"

text \<open>\<^verbatim>\<open>customer.contacts.find(c => c.primary)?.name\<close>\<close>

definition primaryContactName :: "Customer \<Rightarrow> string option" where
  "primaryContactName customer = map_option name (List.find primary (contacts customer))"

definition nl :: string where
  "nl = [CHR 0x0A]"

definition greeting :: "Customer \<Rightarrow> string" where
  "greeting customer = ''Hi '' @ orElse (primaryContactName customer) ''there'' @ '','' @ nl @ nl"

definition billingTemplate :: "Runtime \<Rightarrow> Customer \<Rightarrow> string" where
  "billingTemplate rt customer =
     greeting customer
     @ ''Thank you for reaching out about your billing inquiry. [Address specific question]''
     @ nl @ nl @ ''For reference, your current plan is '' @ join '', '' (products customer)
     @ '' at $'' @ toLocaleString rt (contractValue customer) @ ''/year.''
     @ nl @ nl @ ''[Resolution or next steps]''"

definition technicalTemplate :: "Runtime \<Rightarrow> Customer \<Rightarrow> string" where
  "technicalTemplate rt customer =
     greeting customer
     @ ''Thank you for reporting this technical issue. [Acknowledge the problem]''
     @ nl @ nl @ ''Current API usage: ''
     @ numberToString rt (utilizationPercent (apiUsage customer)) @ ''% of monthly limit''
     @ nl @ nl @ ''[Technical solution or investigation steps]''"

definition escalationTemplate :: "Customer \<Rightarrow> string option \<Rightarrow> string" where
  "escalationTemplate customer target =
     greeting customer
     @ ''I understand the urgency of this issue and I'' @ [CHR 0x27]
     @ ''m escalating this to '' @ templateString target @ '' immediately.''
     @ nl @ nl @ ''[Summary of issue and actions taken]''
     @ nl @ nl @ ''You can expect an update within [timeframe based on SLA].''"

definition defaultTemplate :: "Customer \<Rightarrow> string" where
  "defaultTemplate customer =
     greeting customer
     @ ''Thank you for contacting Anthropic support. [Address their inquiry]''
     @ nl @ nl @ ''[Resolution or next steps]''"

definition generateResponseGuidance ::
    "Runtime \<Rightarrow> Database \<Rightarrow> Customer \<Rightarrow> string \<Rightarrow> js_error + ResponseGuidance" where
  "generateResponseGuidance rt database customer issue =
     (let baseGuidance =
            \<lparr> rg_customer =
                \<lparr> gc_company = company customer,
                  gc_tier = tier customer,
                  gc_primaryContact = primaryContactName customer \<rparr>,
              issueType = issue,
              responseTemplate = [],
              toneGuidance = [],
              escalationPath = getProperty (escalationRules database) (tier customer),
              additionalContext = [] \<rparr>;
          baseGuidance =
            (if includes_str (tier customer) ''Enterprise'' then
               baseGuidance\<lparr> toneGuidance :=
                 push (push (push (toneGuidance baseGuidance)
                   ''Use professional, consultative tone'')
                   ''Reference their specific use case if known'')
                   ''Offer direct line or meeting for complex issues'' \<rparr>
             else
               baseGuidance\<lparr> toneGuidance :=
                 push (push (toneGuidance baseGuidance)
                   ''Friendly and helpful tone'')
                   ''Clear, step-by-step guidance'' \<rparr>)
      in if issue = ''billing'' then
           Inr (baseGuidance
             \<lparr> responseTemplate := billingTemplate rt customer,
               additionalContext :=
                 push (push (additionalContext baseGuidance)
                   (''Contract value: $'' @ toLocaleString rt (contractValue customer)))
                   (''Renewal date: '' @ renewalDate customer) \<rparr>)
         else if issue = ''api'' \<or> issue = ''technical'' then
           (let ctx =
                  push (push (additionalContext baseGuidance)
                    (''API utilization: ''
                     @ numberToString rt (utilizationPercent (apiUsage customer)) @ ''%''))
                    (''Products: '' @ join '', '' (products customer));
                ctx =
                  (if length (knownIssues customer) > 0
                   then push ctx (''Known issues: '' @ join ''; '' (knownIssues customer))
                   else ctx)
            in Inr (baseGuidance
                 \<lparr> responseTemplate := technicalTemplate rt customer,
                   additionalContext := ctx \<rparr>))
         else if issue = ''escalation'' then
           (case getEscalateTo (getProperty (escalationRules database) (tier customer)) of
              Inl e \<Rightarrow> Inl e
            | Inr target \<Rightarrow>
                Inr (baseGuidance
                  \<lparr> responseTemplate := escalationTemplate customer target,
                    toneGuidance :=
                      push (push (push (toneGuidance baseGuidance)
                        ''Acknowledge frustration'')
                        ''Provide concrete timeline'')
                        ''Take ownership'' \<rparr>))
         else
           Inr (baseGuidance\<lparr> responseTemplate := defaultTemplate customer \<rparr>))"

subsection \<open>Tool: lookup_customer\<close>

record LookupMiss =
  lm_found :: bool
  lm_message :: string
  suggestion :: string

record RenewalStatus =
  date :: string
  daysUntil :: "int option"
  urgent :: bool

record ApiUsageStatus = ApiUsage +
  usageStatus :: string

record PrimaryContact =
  pc_name :: string
  pc_role :: string
  pc_email :: string

record CustomerContext =
  cc_id :: string
  cc_company :: string
  cc_tier :: string
  cc_accountManager :: "string option"
  cc_contractValue :: string
  renewalStatus :: RenewalStatus
  cc_products :: "string list"
  cc_apiUsage :: ApiUsageStatus
  cc_primaryContact :: "PrimaryContact option"
  cc_supportHistory :: SupportHistory
  activeFlags :: "string list"
  cc_knownIssues :: "string list"

record LookupContext =
  lc_found :: bool
  lc_customer :: CustomerContext
  lc_supportGuidance :: SupportGuidance

datatype lookup_payload = LookupNotFound LookupMiss | LookupFound LookupContext

text \<open>
  \<^verbatim>\<open>Math.ceil(ms / (1000 * 60 * 60 * 24))\<close> on a whole number of milliseconds;
  \<open>None\<close> is \<^verbatim>\<open>NaN\<close>, which \<^verbatim>\<open>Math.ceil\<close> and the subtraction pass
  on, and which compares false with every number.
\<close>

definition ceilDays :: "int \<Rightarrow> int" where
  "ceilDays ms = \<lceil>(of_int ms :: rat) / of_int (1000 * 60 * 60 * 24)\<rceil>"

fun leNumber :: "int option \<Rightarrow> int \<Rightarrow> bool" where
  "leNumber None n = False"
| "leNumber (Some m) n = (m \<le> n)"

text \<open>The predicate of \<^verbatim>\<open>database.customers.find\<close> in lookup_customer.\<close>

definition matchesQuery :: "Runtime \<Rightarrow> string \<Rightarrow> Customer \<Rightarrow> bool" where
  "matchesQuery rt searchLower c =
     (toLowerCase rt (cid c) = searchLower
      \<or> includes_str (toLowerCase rt (company c)) searchLower)"

definition lookupContext :: "Runtime \<Rightarrow> Database \<Rightarrow> Customer \<Rightarrow> LookupContext" where
  "lookupContext rt database c =
     (let primaryContact = List.find primary (contacts c);
          daysUntilRenewal =
            map_option (\<lambda>t. ceilDays (t - Date_now rt)) (Date_getTime rt (renewalDate c))
      in \<lparr> lc_found = True,
           lc_customer =
             \<lparr> cc_id = cid c,
               cc_company = company c,
               cc_tier = tier c,
               cc_accountManager = accountManager c,
               cc_contractValue = ''$'' @ toLocaleString rt (contractValue c),
               renewalStatus =
                 \<lparr> date = renewalDate c,
                   daysUntil = daysUntilRenewal,
                   urgent = leNumber daysUntilRenewal 30 \<rparr>,
               cc_products = products c,
               cc_apiUsage =
                 ApiUsage.extend (ApiUsage.truncate (apiUsage c))
                   \<lparr> usageStatus =
                       (if utilizationPercent (apiUsage c) \<ge> 90 then ''APPROACHING_LIMIT''
                        else if utilizationPercent (apiUsage c) \<ge> 75 then ''HEALTHY''
                        else ''UNDERUTILIZED'') \<rparr>,
               cc_primaryContact =
                 map_option
                   (\<lambda>p. \<lparr> pc_name = name p, pc_role = role p, pc_email = email p \<rparr>)
                   primaryContact,
               cc_supportHistory = supportHistory c,
               activeFlags = flags c,
               cc_knownIssues = knownIssues c \<rparr>,
           lc_supportGuidance = generateSupportGuidance database c \<rparr>)"

definition lookup_customer :: "Runtime \<Rightarrow> Database \<Rightarrow> string \<Rightarrow> lookup_payload" where
  "lookup_customer rt database query =
     (let searchLower = toLowerCase rt query
      in case List.find (matchesQuery rt searchLower) (customers database) of
           None \<Rightarrow>
             LookupNotFound
               \<lparr> lm_found = False,
                 lm_message = ''No customer found matching \"'' @ query @ ''\"'',
                 suggestion = ''Try searching by company name or customer ID (e.g., ENT-001)'' \<rparr>
         | Some c \<Rightarrow> LookupFound (lookupContext rt database c))"

subsection \<open>Tool: get_open_tickets\<close>

record IdMiss =
  im_found :: bool
  im_message :: string

record TicketView =
  tv_id :: string
  tv_subject :: string
  tv_status :: string
  tv_priority :: string
  ageInDays :: "int option"
  tv_lastUpdated :: string
  tv_assignee :: string
  tv_tags :: "string list"

record TicketSummary =
  ts_customerId :: string
  ts_company :: string
  ts_tier :: string
  openTicketCount :: nat
  ts_tickets :: "TicketView list"
  escalationRule :: property

datatype tickets_payload = TicketsNotFound IdMiss | TicketsFound TicketSummary

definition idMiss :: "string \<Rightarrow> IdMiss" where
  "idMiss cId =
     \<lparr> im_found = False,
       im_message = ''No customer found with ID \"'' @ cId @ ''\"'' \<rparr>"

text \<open>The predicate of \<^verbatim>\<open>database.tickets.filter\<close> and the function of \<^verbatim>\<open>tickets.map\<close>.\<close>

definition isOpenTicketOf :: "string \<Rightarrow> Ticket \<Rightarrow> bool" where
  "isOpenTicketOf cId t =
     (customerId t = cId \<and> includes_arr [''open'', ''pending'', ''in_progress''] (status t))"

definition ticketView :: "Runtime \<Rightarrow> Ticket \<Rightarrow> TicketView" where
  "ticketView rt t =
     \<lparr> tv_id = tid t,
       tv_subject = subject t,
       tv_status = status t,
       tv_priority = priority t,
       ageInDays = map_option (\<lambda>c. ceilDays (Date_now rt - c)) (Date_getTime rt (createdAt t)),
       tv_lastUpdated = lastUpdated t,
       tv_assignee = assignee t,
       tv_tags = tags t \<rparr>"

definition get_open_tickets :: "Runtime \<Rightarrow> Database \<Rightarrow> string \<Rightarrow> tickets_payload" where
  "get_open_tickets rt database cId =
     (case List.find (\<lambda>c. cid c = cId) (customers database) of
        None \<Rightarrow> TicketsNotFound (idMiss cId)
      | Some customer \<Rightarrow>
          (let openTickets = filter (isOpenTicketOf cId) (tickets database)
           in TicketsFound
                \<lparr> ts_customerId = cId,
                  ts_company = company customer,
                  ts_tier = tier customer,
                  openTicketCount = length openTickets,
                  ts_tickets = map (ticketView rt) openTickets,
                  escalationRule = getProperty (escalationRules database) (tier customer) \<rparr>))"

subsection \<open>Tool: get_response_guidance\<close>

text \<open>
  The boundary admits the six values of the enumeration only; the helper takes the
  name as a string and has a default branch.
\<close>

datatype IssueType = billing | technical | api | account | feature_request | escalation

fun issueTypeName :: "IssueType \<Rightarrow> string" where
  "issueTypeName billing = ''billing''"
| "issueTypeName technical = ''technical''"
| "issueTypeName api = ''api''"
| "issueTypeName account = ''account''"
| "issueTypeName feature_request = ''feature_request''"
| "issueTypeName escalation = ''escalation''"

datatype guidance_payload = GuidanceNotFound IdMiss | GuidanceFound ResponseGuidance

definition get_response_guidance ::
    "Runtime \<Rightarrow> Database \<Rightarrow> string \<Rightarrow> IssueType \<Rightarrow> js_error + guidance_payload" where
  "get_response_guidance rt database cId issue =
     (case List.find (\<lambda>c. cid c = cId) (customers database) of
        None \<Rightarrow> Inr (GuidanceNotFound (idMiss cId))
      | Some customer \<Rightarrow>
          (case generateResponseGuidance rt database customer (issueTypeName issue) of
             Inl e \<Rightarrow> Inl e
           | Inr guidance \<Rightarrow> Inr (GuidanceFound guidance)))"

subsection \<open>Sample data\<close>

text \<open>
  The data file is not part of the sources. The records below are a small database of the
  shape the interfaces declare, on which the theorems are run: the account of the
  README's example, a strategic account, a standard account whose tickets are all
  closed, and an account of a tier the rule table does not list.
\<close>

definition exampleRules :: "string \<rightharpoonup> EscalationRule" where
  "exampleRules = map_of
     [(''Standard'',
         \<lparr> maxResponseTime = ''24 hours'', escalateTo = ''Support Lead'',
           autoEscalateAfter = ''48 hours'' \<rparr>),
      (''Growth'',
         \<lparr> maxResponseTime = ''8 hours'', escalateTo = ''Senior Support Engineer'',
           autoEscalateAfter = ''24 hours'' \<rparr>),
      (''Enterprise'',
         \<lparr> maxResponseTime = ''4 hours'', escalateTo = ''Enterprise Support Manager'',
           autoEscalateAfter = ''8 hours'' \<rparr>),
      (''Enterprise Plus'',
         \<lparr> maxResponseTime = ''1 hour'', escalateTo = ''VP of Customer Success'',
           autoEscalateAfter = ''2 hours'' \<rparr>)]"

definition acme :: Customer where
  "acme =
     \<lparr> cid = ''ENT-001'', company = ''Acme Corporation'', tier = ''Enterprise'',
       accountManager = Some ''Sarah Chen'', contractValue = 125000,
       renewalDate = ''2023-12-01'', products = [''Claude API'', ''Claude for Work''],
       apiUsage = \<lparr> monthlyTokens = 45000000, monthlyLimit = 50000000,
                    utilizationPercent = 90 \<rparr>,
       knownIssues = [''Rate limiting concerns during peak hours''],
       supportHistory = \<lparr> totalTickets = 12, avgResolutionHours = 6, csat = 9 / 2 \<rparr>,
       contacts =
         [\<lparr> name = ''Dana Whitfield'', role = ''CTO'', email = ''dana@acme.example'',
            primary = False \<rparr>,
          \<lparr> name = ''Jordan Lee'', role = ''Engineering Lead'',
            email = ''jordan@acme.example'', primary = True \<rparr>],
       flags = [''HIGH_VALUE'', ''EXPANSION_OPPORTUNITY''] \<rparr>"

definition globalFinance :: Customer where
  "globalFinance =
     \<lparr> cid = ''ENT-002'', company = ''Global Finance Ltd'', tier = ''Enterprise Plus'',
       accountManager = Some ''Michael Torres'', contractValue = 500000,
       renewalDate = ''2024-01-15'', products = [''Claude API''],
       apiUsage = \<lparr> monthlyTokens = 120000000, monthlyLimit = 200000000,
                    utilizationPercent = 60 \<rparr>,
       knownIssues = [],
       supportHistory = \<lparr> totalTickets = 30, avgResolutionHours = 3, csat = 4 \<rparr>,
       contacts = [],
       flags = [''STRATEGIC_ACCOUNT'', ''HIGH_VALUE'', ''COMPLIANCE_SENSITIVE''] \<rparr>"

definition brightIdeas :: Customer where
  "brightIdeas =
     \<lparr> cid = ''STD-001'', company = ''Bright Ideas Studio'', tier = ''Standard'',
       accountManager = None, contractValue = 2400,
       renewalDate = ''not set'', products = [''Claude API''],
       apiUsage = \<lparr> monthlyTokens = 100000, monthlyLimit = 1000000,
                    utilizationPercent = 10 \<rparr>,
       knownIssues = [],
       supportHistory = \<lparr> totalTickets = 2, avgResolutionHours = 20, csat = 5 \<rparr>,
       contacts = [],
       flags = [] \<rparr>"

definition pilotLabs :: Customer where
  "pilotLabs =
     \<lparr> cid = ''TRL-001'', company = ''Pilot Labs'', tier = ''Trial'',
       accountManager = None, contractValue = 0,
       renewalDate = ''2024-01-15'', products = [''Claude API''],
       apiUsage = \<lparr> monthlyTokens = 950, monthlyLimit = 1000,
                    utilizationPercent = 95 \<rparr>,
       knownIssues = [''Sandbox key expired'', ''Quota request pending''],
       supportHistory = \<lparr> totalTickets = 1, avgResolutionHours = 0, csat = 0 \<rparr>,
       contacts = [],
       flags = [''APPROACHING_RENEWAL''] \<rparr>"

definition mkTicket :: "string \<Rightarrow> string \<Rightarrow> string \<Rightarrow> string \<Rightarrow> Ticket" where
  "mkTicket i c st created =
     \<lparr> tid = i, customerId = c, subject = ''Rate limit errors'', status = st,
       priority = ''high'', createdAt = created, lastUpdated = created,
       assignee = ''Support Team'', description = ''429 responses at peak'',
       tags = [''api''] \<rparr>"

definition exampleTickets :: "Ticket list" where
  "exampleTickets =
     [mkTicket ''TKT-001'' ''ENT-001'' ''open'' ''2023-11-11T22:13:20.000Z'',
      mkTicket ''TKT-002'' ''ENT-001'' ''resolved'' ''2023-11-04T22:13:20.000Z'',
      mkTicket ''TKT-003'' ''ENT-002'' ''in_progress'' ''2023-11-14T22:13:20.000Z'',
      mkTicket ''TKT-004'' ''ENT-001'' ''pending'' ''2023-11-13T23:13:20.000Z'',
      mkTicket ''TKT-005'' ''STD-001'' ''closed'' ''2023-11-04T22:13:20.000Z'']"

definition exampleDb :: Database where
  "exampleDb =
     \<lparr> customers = [acme, globalFinance, brightIdeas, pilotLabs],
       tickets = exampleTickets,
       escalationRules = exampleRules \<rparr>"

text \<open>
  A runtime whose clock stands at 2023-11-14T22:13:20Z and which parses the dates of the
  sample data; every other string is an invalid date. Its lower-casing maps the letters
  A to Z to a to z and leaves every other byte, which is what \<^verbatim>\<open>toLowerCase\<close>
  does on the ASCII strings of the sample data.
\<close>

definition asciiLowerChar :: "char \<Rightarrow> char" where
  "asciiLowerChar c =
     (case map_of (zip ''ABCDEFGHIJKLMNOPQRSTUVWXYZ'' ''abcdefghijklmnopqrstuvwxyz'') c of
        Some l \<Rightarrow> l
      | None \<Rightarrow> c)"

definition asciiLowerCase :: "string \<Rightarrow> string" where
  "asciiLowerCase s = map asciiLowerChar s"

definition exampleRuntime :: Runtime where
  "exampleRuntime =
     \<lparr> Date_now = 1700000000000,
       Date_getTime = map_of
         [(''2023-11-14T22:13:20.000Z'', 1700000000000),
          (''2023-11-13T23:13:20.000Z'', 1699917200000),
          (''2023-11-11T22:13:20.000Z'', 1699740800000),
          (''2023-11-04T22:13:20.000Z'', 1699136000000),
          (''2023-12-01'', 1701388800000),
          (''2024-01-15'', 1705276800000)],
       toLocaleString =
         (\<lambda>n. if n = 125000 then ''125,000'' else if n = 500000 then ''500,000''
              else if n = 2400 then ''2,400'' else ''0''),
       numberToString =
         (\<lambda>n. if n = 90 then ''90'' else if n = 60 then ''60''
              else if n = 10 then ''10'' else ''95''),
       lowerCase = asciiLowerCase \<rparr>"

text \<open>
  Two databases on which identifiers differ in letter case only, and one whose rule for
  the Growth tier has an empty response time.
\<close>

definition acmeLabs :: Customer where
  "acmeLabs = acme\<lparr> cid := ''ent-001'', company := ''Acme Labs'', tier := ''Growth'' \<rparr>"

definition acmeHoldings :: Customer where
  "acmeHoldings = acme\<lparr> cid := ''Ent-001'', company := ''Acme Holdings'' \<rparr>"

definition twinDb :: Database where
  "twinDb = exampleDb\<lparr> customers := [acmeLabs, acme] \<rparr>"

definition cousinDb :: Database where
  "cousinDb = exampleDb\<lparr> customers := [acmeHoldings, acme] \<rparr>"

definition blankRule :: EscalationRule where
  "blankRule =
     \<lparr> maxResponseTime = [], escalateTo = ''Support Lead'', autoEscalateAfter = ''48 hours'' \<rparr>"

definition blankDb :: Database where
  "blankDb = exampleDb\<lparr> customers := [acmeLabs], escalationRules := [''Growth'' \<mapsto> blankRule] \<rparr>"

text \<open>
  Greek names, as UTF-8: the capital sigma and the small one, the company name
  \<open>odosAE\<close> (the capitals omicron, delta, omicron, sigma, a space, alpha, epsilon)
  with its lower-cased form, and the word \<open>odosUpper\<close> (the first four of these
  capitals) with its lower-cased form \<open>odosFinal\<close>, which ends in the final sigma,
  and its letter-by-letter small form \<open>odosSmall\<close>, which ends in the plain one.
  \<open>greekRuntime\<close> lower-cases these strings as \<^verbatim>\<open>toLowerCase\<close> does: a capital
  sigma after a letter and before none becomes the final sigma, one standing alone the
  plain small sigma, and small letters stay as they are.
\<close>

definition capitalSigma :: string where
  "capitalSigma = [CHR 0xCE, CHR 0xA3]"

definition smallSigma :: string where
  "smallSigma = [CHR 0xCF, CHR 0x83]"

definition odosAE :: string where
  "odosAE =
     [CHR 0xCE, CHR 0x9F, CHR 0xCE, CHR 0x94, CHR 0xCE, CHR 0x9F, CHR 0xCE, CHR 0xA3,
      CHR 0x20, CHR 0xCE, CHR 0x91, CHR 0xCE, CHR 0x95]"

definition odosAE_lower :: string where
  "odosAE_lower =
     [CHR 0xCE, CHR 0xBF, CHR 0xCE, CHR 0xB4, CHR 0xCE, CHR 0xBF, CHR 0xCF, CHR 0x82,
      CHR 0x20, CHR 0xCE, CHR 0xB1, CHR 0xCE, CHR 0xB5]"

definition odosUpper :: string where
  "odosUpper = [CHR 0xCE, CHR 0x9F, CHR 0xCE, CHR 0x94, CHR 0xCE, CHR 0x9F, CHR 0xCE, CHR 0xA3]"

definition odosFinal :: string where
  "odosFinal = [CHR 0xCE, CHR 0xBF, CHR 0xCE, CHR 0xB4, CHR 0xCE, CHR 0xBF, CHR 0xCF, CHR 0x82]"

definition odosSmall :: string where
  "odosSmall = [CHR 0xCE, CHR 0xBF, CHR 0xCE, CHR 0xB4, CHR 0xCE, CHR 0xBF, CHR 0xCF, CHR 0x83]"

definition greekRuntime :: Runtime where
  "greekRuntime =
     exampleRuntime
       \<lparr> lowerCase :=
           (\<lambda>s. if s = capitalSigma then smallSigma
                else if s = odosAE then odosAE_lower
                else if s = odosUpper then odosFinal
                else asciiLowerCase s) \<rparr>"

definition odos :: Customer where
  "odos = brightIdeas\<lparr> cid := ''GRK-001'', company := odosAE \<rparr>"

definition odosById :: Customer where
  "odosById = brightIdeas\<lparr> cid := odosUpper, company := ''Odos SA'' \<rparr>"

definition greekDb :: Database where
  "greekDb = exampleDb\<lparr> customers := [odos] \<rparr>"

definition greekIdDb :: Database where
  "greekIdDb = exampleDb\<lparr> customers := [odosById] \<rparr>"

subsection \<open>The rule table of the specification\<close>

text \<open>
  The specification describes the guidance list as eight conditions evaluated in a
  fixed order, each appending its messages when it holds. \<open>specConditions\<close> is that
  table, written from the specification's words and not from the code;
  \<open>appendWhereHolds\<close> evaluates such a table in its order.
\<close>

definition specConditions :: "Customer \<Rightarrow> (bool \<times> string list) list" where
  "specConditions c =
     [(tier c = ''Enterprise Plus'',
         [msgStrategicAccount, msgCcAccountManager, msgProactiveUpdates]),
      (tier c \<noteq> ''Enterprise Plus'' \<and> tier c = ''Enterprise'',
         [msgEnterprise, msgLoopInAccountManager]),
      (''HIGH_VALUE'' \<in> set (flags c), [msgHighValue]),
      (''APPROACHING_RENEWAL'' \<in> set (flags c), [msgApproachingRenewal]),
      (''EXPANSION_OPPORTUNITY'' \<in> set (flags c), [msgExpansionOpportunity]),
      (''COMPLIANCE_SENSITIVE'' \<in> set (flags c), [msgComplianceSensitive]),
      (utilizationPercent (apiUsage c) \<ge> 90, [msgApproachingLimit]),
      (knownIssues c \<noteq> [], [msgKnownIssues (knownIssues c)])]"

definition appendWhereHolds :: "(bool \<times> 'a list) list \<Rightarrow> 'a list" where
  "appendWhereHolds rules = concat (map (\<lambda>(holds, msgs). if holds then msgs else []) rules)"

text \<open>
  A query matching a customer, in words: the lower-cased id is the lower-cased query, or
  the lower-cased query occurs somewhere in the lower-cased company name.
\<close>

definition specMatch :: "Runtime \<Rightarrow> string \<Rightarrow> Customer \<Rightarrow> bool" where
  "specMatch rt query c =
     (toLowerCase rt (cid c) = toLowerCase rt query
      \<or> (\<exists>ps ss. toLowerCase rt (company c) = ps @ toLowerCase rt query @ ss))"

section \<open>Properties\<close>

subsection \<open>Auxiliary facts\<close>

lemmas sample_defs =
  exampleDb_def exampleRules_def exampleTickets_def exampleRuntime_def acme_def
  globalFinance_def brightIdeas_def pilotLabs_def mkTicket_def acmeLabs_def acmeHoldings_def
  twinDb_def cousinDb_def blankRule_def blankDb_def

lemmas eval_defs =
  sample_defs toLowerCase_def asciiLowerCase_def asciiLowerChar_def includes_str_def
  includes_arr_def push_def
  sublist_code prefix_code getProperty_def objectPrototypeKeys_def Let_def

lemma includes_str_iff: "includes_str s t \<longleftrightarrow> (\<exists>ps ss. s = ps @ t @ ss)"
  by (simp add: includes_str_def sublist_def)

lemma includes_str_Nil: "includes_str s []"
  by (simp add: includes_str_def)

lemmas greek_defs =
  greekRuntime_def greekDb_def greekIdDb_def odos_def odosById_def capitalSigma_def
  smallSigma_def odosAE_def odosAE_lower_def odosUpper_def odosFinal_def odosSmall_def

lemma toLowerCase_Nil: "toLowerCase rt [] = []"
  by (simp add: toLowerCase_def)

lemma specMatch_iff: "specMatch rt q c = matchesQuery rt (toLowerCase rt q) c"
  by (simp add: specMatch_def matchesQuery_def includes_str_iff)

lemma lookupContext_fields:
  "lc_found (lookupContext rt db c)
   \<and> cc_id (lc_customer (lookupContext rt db c)) = cid c
   \<and> cc_company (lc_customer (lookupContext rt db c)) = company c
   \<and> cc_tier (lc_customer (lookupContext rt db c)) = tier c
   \<and> lc_supportGuidance (lookupContext rt db c) = generateSupportGuidance db c"
  by (simp add: lookupContext_def Let_def)

lemma find_split:
  "List.find P xs = Some x \<Longrightarrow>
     \<exists>pre post. xs = pre @ x # post \<and> P x \<and> (\<forall>y\<in>set pre. \<not> P y)"
proof (induction xs)
  case Nil
  then show ?case by simp
next
  case (Cons a xs)
  show ?case
  proof (cases "P a")
    case True
    with Cons.prems have "a = x" by simp
    with True have "a # xs = [] @ x # xs \<and> P x \<and> (\<forall>y\<in>set []. \<not> P y)" by simp
    then show ?thesis by blast
  next
    case False
    with Cons.prems have "List.find P xs = Some x" by simp
    from Cons.IH [OF this] obtain pre post where
      "xs = pre @ x # post" "P x" "\<forall>y\<in>set pre. \<not> P y" by blast
    with False have "a # xs = (a # pre) @ x # post \<and> P x \<and> (\<forall>y\<in>set (a # pre). \<not> P y)"
      by simp
    then show ?thesis by blast
  qed
qed

lemma find_first:
  "xs = pre @ x # post \<Longrightarrow> P x \<Longrightarrow> \<forall>y\<in>set pre. \<not> P y \<Longrightarrow> List.find P xs = Some x"
  by (induction pre arbitrary: xs) auto

lemma find_none: "\<forall>y\<in>set xs. \<not> P y \<Longrightarrow> List.find P xs = None"
  by (simp add: find_None_iff)

lemma find_some_mem: "List.find P xs = Some x \<Longrightarrow> x \<in> set xs \<and> P x"
  by (induction xs) (auto split: if_splits)

lemma find_exists: "x \<in> set xs \<Longrightarrow> P x \<Longrightarrow> \<exists>y. List.find P xs = Some y"
  by (cases "List.find P xs") (auto simp: find_None_iff)

subsection \<open>Priority level\<close>

text \<open>
  Claim C2. For every customer, the priority level of \<open>generateSupportGuidance\<close> is
  HIGH exactly when the tier contains the text Enterprise somewhere, and STANDARD exactly
  when it does not; the tiers Enterprise and Enterprise Plus both give HIGH.
\<close>

theorem priorityLevel_HIGH_iff_Enterprise:
  "(priorityLevel (generateSupportGuidance db c) = ''HIGH''
      \<longleftrightarrow> (\<exists>ps ss. tier c = ps @ ''Enterprise'' @ ss))
   \<and> (priorityLevel (generateSupportGuidance db c) = ''STANDARD''
      \<longleftrightarrow> \<not> (\<exists>ps ss. tier c = ps @ ''Enterprise'' @ ss))
   \<and> (tier c = ''Enterprise'' \<or> tier c = ''Enterprise Plus''
      \<longrightarrow> priorityLevel (generateSupportGuidance db c) = ''HIGH'')"
proof -
  have p: "priorityLevel (generateSupportGuidance db c) =
      (if includes_str (tier c) ''Enterprise'' then ''HIGH'' else ''STANDARD'')"
    by (simp add: generateSupportGuidance_def Let_def)
  have e: "includes_str ''Enterprise'' ''Enterprise''"
    unfolding includes_str_iff by (rule exI [of _ "[]"], rule exI [of _ "[]"]) simp
  have ep: "includes_str ''Enterprise Plus'' ''Enterprise''"
    unfolding includes_str_iff by (rule exI [of _ "[]"], rule exI [of _ "'' Plus''"]) simp
  show ?thesis
    using p e ep by (auto simp: includes_str_iff)
qed

theorem priorityLevel_witness:
  "tier acme = ''Enterprise''
   \<and> priorityLevel (generateSupportGuidance exampleDb acme) = ''HIGH''
   \<and> priorityLevel (generateSupportGuidance exampleDb brightIdeas) = ''STANDARD''
   \<and> \<not> (\<exists>ps ss. tier brightIdeas = ps @ ''Enterprise'' @ ss)"
proof -
  have t: "tier acme = ''Enterprise''"
    by (simp add: acme_def)
  have s: "priorityLevel (generateSupportGuidance exampleDb brightIdeas) = ''STANDARD''"
    by (simp add: generateSupportGuidance_def Let_def brightIdeas_def includes_str_def
        sublist_code prefix_code)
  show ?thesis
    using t s priorityLevel_HIGH_iff_Enterprise [of exampleDb acme]
      priorityLevel_HIGH_iff_Enterprise [of exampleDb brightIdeas]
    by blast
qed

subsection \<open>Order of the guidance list\<close>

text \<open>
  Claim C4. The guidance list of \<open>generateSupportGuidance\<close> is the result of evaluating
  the eight conditions of the specification in their order, appending the messages of
  each condition that holds. For a customer of tier Enterprise Plus it therefore begins
  with the three strategic-account directives, followed by what the conditions on
  flags, usage and known issues append.
\<close>

theorem keyGuidance_fixed_order:
  "keyGuidance (generateSupportGuidance db c) = appendWhereHolds (specConditions c)
   \<and> (tier c = ''Enterprise Plus'' \<longrightarrow>
        keyGuidance (generateSupportGuidance db c) =
          [msgStrategicAccount, msgCcAccountManager, msgProactiveUpdates]
          @ appendWhereHolds (drop 2 (specConditions c)))"
  by (simp add: generateSupportGuidance_def Let_def push_def includes_arr_def
      appendWhereHolds_def specConditions_def)

theorem keyGuidance_witness:
  "tier globalFinance = ''Enterprise Plus''
   \<and> keyGuidance (generateSupportGuidance exampleDb globalFinance) =
       [msgStrategicAccount, msgCcAccountManager, msgProactiveUpdates, msgHighValue,
        msgComplianceSensitive]"
proof -
  have t: "tier globalFinance = ''Enterprise Plus''"
    by (simp add: globalFinance_def)
  have r: "appendWhereHolds (drop 2 (specConditions globalFinance)) =
      [msgHighValue, msgComplianceSensitive]"
    by (simp add: appendWhereHolds_def specConditions_def globalFinance_def)
  have k: "keyGuidance (generateSupportGuidance exampleDb globalFinance) =
      [msgStrategicAccount, msgCcAccountManager, msgProactiveUpdates]
      @ appendWhereHolds (drop 2 (specConditions globalFinance))"
    using t keyGuidance_fixed_order [of exampleDb globalFinance] by blast
  show ?thesis
    using t k r by simp
qed

subsection \<open>Escalation guidance without a rule\<close>

text \<open>
  \<open>generateResponseGuidance\<close> throws in one situation only: the issue type is
  escalation and reading the rule of the customer's tier gives \<^verbatim>\<open>undefined\<close>.
\<close>

lemma generateResponseGuidance_throws_iff:
  "(\<exists>e. generateResponseGuidance rt db c issue = Inl e) \<longleftrightarrow>
     issue = ''escalation'' \<and> escalationRules db (tier c) = None
     \<and> tier c \<notin> set objectPrototypeKeys"
  by (auto simp: generateResponseGuidance_def Let_def getProperty_def
      split: option.splits sum.splits if_splits)

text \<open>
  Claim C1 asks that an escalation request for a customer whose tier has no rule be
  answered with a reported fault and not with an exception. On the sample database the
  tier Trial has no rule, and the handler throws a TypeError for the customer TRL-001.
\<close>

theorem escalation_without_rule_throws:
  "escalationRules exampleDb (tier pilotLabs) = None
   \<and> get_response_guidance exampleRuntime exampleDb ''TRL-001'' escalation = Inl TypeError"
  by (simp add: get_response_guidance_def generateResponseGuidance_def eval_defs)

subsection \<open>Looking a customer up\<close>

text \<open>
  Claim C3 says that \<open>lookup_customer\<close> returns the first customer whose company
  name contains the query when letter case is ignored. The company name \<open>odosAE\<close>
  contains the capital sigma as it stands, and the query that is the capital sigma alone
  finds no customer: lower-casing turns the sigma of the name into the final form and
  the sigma of the query into the plain one.
\<close>

theorem lookup_customer_counterexample:
  "customers greekDb = [odos]
   \<and> includes_str (company odos) capitalSigma
   \<and> lookup_customer greekRuntime greekDb capitalSigma =
       LookupNotFound
         \<lparr> lm_found = False,
           lm_message = ''No customer found matching \"'' @ capitalSigma @ ''\"'',
           suggestion = ''Try searching by company name or customer ID (e.g., ENT-001)'' \<rparr>"
proof -
  have 1: "customers greekDb = [odos]"
    by (simp add: greekDb_def)
  have 2: "includes_str (company odos) capitalSigma"
    by (simp add: odos_def odosAE_def capitalSigma_def includes_str_def sublist_code
        prefix_code)
  have l: "toLowerCase greekRuntime capitalSigma = smallSigma"
    by (simp add: toLowerCase_def greekRuntime_def capitalSigma_def)
  have n: "\<not> matchesQuery greekRuntime smallSigma odos"
    by (simp add: matchesQuery_def greek_defs eval_defs)
  have "List.find (matchesQuery greekRuntime smallSigma) (customers greekDb) = None"
    using n by (simp add: 1)
  then have 3: "lookup_customer greekRuntime greekDb capitalSigma =
       LookupNotFound
         \<lparr> lm_found = False,
           lm_message = ''No customer found matching \"'' @ capitalSigma @ ''\"'',
           suggestion = ''Try searching by company name or customer ID (e.g., ENT-001)'' \<rparr>"
    by (simp add: lookup_customer_def l)
  show ?thesis
    using 1 2 3 by (intro conjI)
qed

text \<open>
  Claim C3, amended. \<open>lookup_customer\<close> returns the first customer, in stored order,
  whose lower-cased id equals the lower-cased query or whose lower-cased company name
  contains the lower-cased query, lower-casing being that of \<^verbatim>\<open>toLowerCase\<close>; the
  payload has \<open>found\<close> true and carries that customer's id and company. When no
  customer matches in this sense it returns the payload with \<open>found\<close> false, the
  query quoted in the message, and the suggestion. The handler has no throwing path:
  its result is always one of these two payloads.
\<close>

theorem lookup_customer_first_match:
  "(customers db = pre @ c # post \<and> specMatch rt q c
      \<and> (\<forall>c'\<in>set pre. \<not> specMatch rt q c')
      \<longrightarrow> lookup_customer rt db q = LookupFound (lookupContext rt db c)
          \<and> lc_found (lookupContext rt db c)
          \<and> cc_id (lc_customer (lookupContext rt db c)) = cid c
          \<and> cc_company (lc_customer (lookupContext rt db c)) = company c)
   \<and> ((\<forall>c'\<in>set (customers db). \<not> specMatch rt q c')
      \<longrightarrow> lookup_customer rt db q =
            LookupNotFound
              \<lparr> lm_found = False,
                lm_message = ''No customer found matching \"'' @ q @ ''\"'',
                suggestion = ''Try searching by company name or customer ID (e.g., ENT-001)'' \<rparr>)"
proof (intro conjI impI)
  assume a: "customers db = pre @ c # post \<and> specMatch rt q c
      \<and> (\<forall>c'\<in>set pre. \<not> specMatch rt q c')"
  then have "List.find (matchesQuery rt (toLowerCase rt q)) (customers db) = Some c"
    by (intro find_first [of _ pre c post]) (simp_all add: specMatch_iff)
  then show "lookup_customer rt db q = LookupFound (lookupContext rt db c)"
    by (simp add: lookup_customer_def)
  show "lc_found (lookupContext rt db c)"
    by (simp add: lookupContext_fields)
  show "cc_id (lc_customer (lookupContext rt db c)) = cid c"
    by (simp add: lookupContext_fields)
  show "cc_company (lc_customer (lookupContext rt db c)) = company c"
    by (simp add: lookupContext_fields)
next
  assume "\<forall>c'\<in>set (customers db). \<not> specMatch rt q c'"
  then have "List.find (matchesQuery rt (toLowerCase rt q)) (customers db) = None"
    by (intro find_none) (simp add: specMatch_iff)
  then show "lookup_customer rt db q =
      LookupNotFound
        \<lparr> lm_found = False,
          lm_message = ''No customer found matching \"'' @ q @ ''\"'',
          suggestion = ''Try searching by company name or customer ID (e.g., ENT-001)'' \<rparr>"
    by (simp add: lookup_customer_def)
qed

theorem lookup_customer_witness:
  "lookup_customer exampleRuntime exampleDb ''GLOBAL FIN'' =
     LookupFound (lookupContext exampleRuntime exampleDb globalFinance)
   \<and> cc_id (lc_customer (lookupContext exampleRuntime exampleDb globalFinance)) = ''ENT-002''
   \<and> lookup_customer exampleRuntime exampleDb ''std-001'' =
     LookupFound (lookupContext exampleRuntime exampleDb brightIdeas)
   \<and> cc_id (lc_customer (lookupContext exampleRuntime exampleDb brightIdeas)) = ''STD-001''
   \<and> lookup_customer exampleRuntime exampleDb ''Nonexistent Inc'' =
     LookupNotFound
       \<lparr> lm_found = False,
         lm_message = ''No customer found matching \"Nonexistent Inc\"'',
         suggestion = ''Try searching by company name or customer ID (e.g., ENT-001)'' \<rparr>"
proof -
  have g: "customers exampleDb = [acme] @ globalFinance # [brightIdeas, pilotLabs]
      \<and> specMatch exampleRuntime ''GLOBAL FIN'' globalFinance
      \<and> (\<forall>c'\<in>set [acme]. \<not> specMatch exampleRuntime ''GLOBAL FIN'' c')"
    by (simp add: specMatch_iff matchesQuery_def eval_defs)
  have b: "customers exampleDb = [acme, globalFinance] @ brightIdeas # [pilotLabs]
      \<and> specMatch exampleRuntime ''std-001'' brightIdeas
      \<and> (\<forall>c'\<in>set [acme, globalFinance]. \<not> specMatch exampleRuntime ''std-001'' c')"
    by (simp add: specMatch_iff matchesQuery_def eval_defs)
  have n: "\<forall>c'\<in>set (customers exampleDb). \<not> specMatch exampleRuntime ''Nonexistent Inc'' c'"
    by (simp add: specMatch_iff matchesQuery_def eval_defs)
  have ig: "cid globalFinance = ''ENT-002''" and ib: "cid brightIdeas = ''STD-001''"
    by (simp_all add: globalFinance_def brightIdeas_def)
  show ?thesis
    using g b n ig ib
      lookup_customer_first_match [of exampleDb "[acme]" globalFinance
        "[brightIdeas, pilotLabs]" exampleRuntime "''GLOBAL FIN''"]
      lookup_customer_first_match [of exampleDb "[acme, globalFinance]" brightIdeas
        "[pilotLabs]" exampleRuntime "''std-001''"]
      lookup_customer_first_match [of exampleDb _ _ _ exampleRuntime "''Nonexistent Inc''"]
    by simp
qed

text \<open>
  Claim C10. On a database with at least one customer, the empty query returns the
  first stored customer: the payload has \<open>found\<close> true, carries the id, the company
  and the tier of that customer, and the support guidance derived for it.
\<close>

theorem empty_query_returns_first:
  "customers db = c # cs \<Longrightarrow>
     lookup_customer rt db [] = LookupFound (lookupContext rt db c)
     \<and> lc_found (lookupContext rt db c)
     \<and> cc_id (lc_customer (lookupContext rt db c)) = cid c
     \<and> cc_company (lc_customer (lookupContext rt db c)) = company c
     \<and> cc_tier (lc_customer (lookupContext rt db c)) = tier c
     \<and> lc_supportGuidance (lookupContext rt db c) = generateSupportGuidance db c"
proof -
  assume a: "customers db = c # cs"
  have "matchesQuery rt [] c"
    by (simp add: matchesQuery_def includes_str_Nil)
  then have "List.find (matchesQuery rt (toLowerCase rt [])) (customers db) = Some c"
    by (simp add: a toLowerCase_Nil)
  then have "lookup_customer rt db [] = LookupFound (lookupContext rt db c)"
    by (simp add: lookup_customer_def)
  then show ?thesis
    using lookupContext_fields [of rt db c] by simp
qed

theorem empty_query_witness:
  "customers exampleDb = acme # [globalFinance, brightIdeas, pilotLabs]
   \<and> lookup_customer exampleRuntime exampleDb [] =
       LookupFound (lookupContext exampleRuntime exampleDb acme)
   \<and> lc_found (lookupContext exampleRuntime exampleDb acme)
   \<and> cc_id (lc_customer (lookupContext exampleRuntime exampleDb acme)) = ''ENT-001''
   \<and> cc_company (lc_customer (lookupContext exampleRuntime exampleDb acme))
       = ''Acme Corporation''
   \<and> cc_tier (lc_customer (lookupContext exampleRuntime exampleDb acme)) = ''Enterprise''"
proof -
  have h: "customers exampleDb = acme # [globalFinance, brightIdeas, pilotLabs]"
    by (simp add: exampleDb_def)
  have f: "cid acme = ''ENT-001'' \<and> company acme = ''Acme Corporation''
      \<and> tier acme = ''Enterprise''"
    by (simp add: acme_def)
  show ?thesis
    using h f empty_query_returns_first [OF h, of exampleRuntime] by simp
qed

subsection \<open>Open tickets\<close>

lemma isOpenTicketOf_iff:
  "isOpenTicketOf i t \<longleftrightarrow>
     customerId t = i \<and> status t \<in> {''open'', ''pending'', ''in_progress''}"
  by (auto simp: isOpenTicketOf_def includes_arr_def)

text \<open>
  Claim C5. For the id of a stored customer, \<open>get_open_tickets\<close> returns the summary
  whose tickets are the stored tickets of that customer id with status open, pending or
  in_progress, in stored order, and whose count is their number. No returned ticket is
  resolved or closed, and a customer without such a ticket gets the empty list and the
  count 0, not a not-found payload.
\<close>

theorem get_open_tickets_filters:
  assumes "c \<in> set (customers db)" and "cid c = i"
  shows "\<exists>s. get_open_tickets rt db i = TicketsFound s
      \<and> ts_tickets s =
          map (ticketView rt)
            (filter (\<lambda>t. customerId t = i \<and> status t \<in> {''open'', ''pending'', ''in_progress''})
              (tickets db))
      \<and> openTicketCount s = length (ts_tickets s)
      \<and> (\<forall>v\<in>set (ts_tickets s). tv_status v \<noteq> ''resolved'' \<and> tv_status v \<noteq> ''closed'')
      \<and> ((\<forall>t\<in>set (tickets db).
             \<not> (customerId t = i \<and> status t \<in> {''open'', ''pending'', ''in_progress''}))
           \<longrightarrow> ts_tickets s = [] \<and> openTicketCount s = 0)"
proof -
  obtain c' where f: "List.find (\<lambda>c. cid c = i) (customers db) = Some c'"
    using assms find_exists [of c "customers db" "\<lambda>c. cid c = i"] by blast
  have e: "isOpenTicketOf i =
      (\<lambda>t. customerId t = i \<and> status t \<in> {''open'', ''pending'', ''in_progress''})"
    by (rule ext) (simp add: isOpenTicketOf_iff)
  have st: "tv_status (ticketView rt t) = status t" for t
    by (simp add: ticketView_def)
  show ?thesis
    using f by (auto simp: get_open_tickets_def Let_def e st filter_empty_conv)
qed

theorem get_open_tickets_witness:
  "acme \<in> set (customers exampleDb) \<and> cid acme = ''ENT-001''
   \<and> (\<exists>s. get_open_tickets exampleRuntime exampleDb ''ENT-001'' = TicketsFound s
        \<and> map tv_id (ts_tickets s) = [''TKT-001'', ''TKT-004''] \<and> openTicketCount s = 2)
   \<and> brightIdeas \<in> set (customers exampleDb) \<and> cid brightIdeas = ''STD-001''
   \<and> (\<exists>s. get_open_tickets exampleRuntime exampleDb ''STD-001'' = TicketsFound s
        \<and> ts_tickets s = [] \<and> openTicketCount s = 0)"
proof -
  have a: "acme \<in> set (customers exampleDb)" and a': "cid acme = ''ENT-001''"
    by (simp_all add: exampleDb_def acme_def)
  have b: "brightIdeas \<in> set (customers exampleDb)" and b': "cid brightIdeas = ''STD-001''"
    by (simp_all add: exampleDb_def brightIdeas_def)
  have fa: "map tv_id (map (ticketView exampleRuntime)
      (filter (\<lambda>t. customerId t = ''ENT-001''
          \<and> status t \<in> {''open'', ''pending'', ''in_progress''})
        (tickets exampleDb))) = [''TKT-001'', ''TKT-004'']"
    by (simp add: exampleDb_def exampleTickets_def mkTicket_def ticketView_def)
  have fb: "filter (\<lambda>t. customerId t = ''STD-001''
          \<and> status t \<in> {''open'', ''pending'', ''in_progress''})
        (tickets exampleDb) = []"
    by (simp add: exampleDb_def exampleTickets_def mkTicket_def)
  have ra: "\<exists>s. get_open_tickets exampleRuntime exampleDb ''ENT-001'' = TicketsFound s
        \<and> map tv_id (ts_tickets s) = [''TKT-001'', ''TKT-004''] \<and> openTicketCount s = 2"
  proof -
    from get_open_tickets_filters [OF a a', of exampleRuntime]
    obtain s where s: "get_open_tickets exampleRuntime exampleDb ''ENT-001'' = TicketsFound s"
      and t: "ts_tickets s = map (ticketView exampleRuntime)
        (filter (\<lambda>t. customerId t = ''ENT-001''
            \<and> status t \<in> {''open'', ''pending'', ''in_progress''}) (tickets exampleDb))"
      and n: "openTicketCount s = length (ts_tickets s)"
      by blast
    have m: "map tv_id (ts_tickets s) = [''TKT-001'', ''TKT-004'']"
      using fa by (simp only: t)
    have "length (map tv_id (ts_tickets s)) = 2"
      by (simp only: m) simp
    then have "openTicketCount s = 2"
      using n by simp
    with s m show ?thesis by (intro exI [of _ s]) simp
  qed
  have rb: "\<exists>s. get_open_tickets exampleRuntime exampleDb ''STD-001'' = TicketsFound s
        \<and> ts_tickets s = [] \<and> openTicketCount s = 0"
  proof -
    from get_open_tickets_filters [OF b b', of exampleRuntime]
    obtain s where s: "get_open_tickets exampleRuntime exampleDb ''STD-001'' = TicketsFound s"
      and t: "ts_tickets s = map (ticketView exampleRuntime)
        (filter (\<lambda>t. customerId t = ''STD-001''
            \<and> status t \<in> {''open'', ''pending'', ''in_progress''}) (tickets exampleDb))"
      and n: "openTicketCount s = length (ts_tickets s)"
      by blast
    have m: "ts_tickets s = []"
      using t by (simp only: fb list.map)
    with s n show ?thesis by simp
  qed
  show ?thesis
    using a a' b b' ra rb by blast
qed

subsection \<open>Age of a ticket\<close>

text \<open>
  \<open>ceilDays\<close> is the ceiling of a number of milliseconds in days: the least whole
  number of days that is not less.
\<close>

lemma ceilDays_iff: "ceilDays ms = d \<longleftrightarrow> (d - 1) * 86400000 < ms \<and> ms \<le> d * 86400000"
proof -
  have "ceilDays ms = d \<longleftrightarrow>
      of_int d - 1 < (of_int ms :: rat) / 86400000 \<and> (of_int ms :: rat) / 86400000 \<le> of_int d"
    by (simp add: ceilDays_def ceiling_eq_iff)
  also have "\<dots> \<longleftrightarrow>
      (of_int ((d - 1) * 86400000) :: rat) < of_int ms \<and> (of_int ms :: rat) \<le> of_int (d * 86400000)"
    by (simp add: pos_less_divide_eq pos_divide_le_eq)
  also have "\<dots> \<longleftrightarrow> (d - 1) * 86400000 < ms \<and> ms \<le> d * 86400000"
    by (simp only: of_int_less_iff of_int_le_iff)
  finally show ?thesis .
qed

lemma get_open_tickets_found:
  "List.find (\<lambda>c. cid c = i) (customers db) = Some c \<Longrightarrow>
     get_open_tickets rt db i =
       TicketsFound
         \<lparr> ts_customerId = i,
           ts_company = company c,
           ts_tier = tier c,
           openTicketCount = length (filter (isOpenTicketOf i) (tickets db)),
           ts_tickets = map (ticketView rt) (filter (isOpenTicketOf i) (tickets db)),
           escalationRule = getProperty (escalationRules db) (tier c) \<rparr>"
  by (simp add: get_open_tickets_def Let_def)

text \<open>
  Claim C8. Every ticket that \<open>get_open_tickets\<close> returns is the view of a stored
  ticket, and the \<open>ageInDays\<close> of the view of a ticket whose creation date the runtime
  parses is the ceiling of the time since its creation, in days: the whole number
  \<open>d\<close> with \<open>d - 1\<close> days less than that time and \<open>d\<close> days not less. A ticket
  created at the time of the call has age 0 and one created 23 hours before has age 1.
  Times are whole milliseconds, as \<^verbatim>\<open>Date\<close> has them.
\<close>

theorem ageInDays_is_ceiling:
  "(get_open_tickets rt db i = TicketsFound s \<and> v \<in> set (ts_tickets s)
      \<longrightarrow> (\<exists>t\<in>set (tickets db). v = ticketView rt t))
   \<and> (Date_getTime rt (createdAt t) = Some created \<longrightarrow>
        (\<forall>d. ageInDays (ticketView rt t) = Some d \<longleftrightarrow>
               (d - 1) * 86400000 < Date_now rt - created
               \<and> Date_now rt - created \<le> d * 86400000)
        \<and> (created = Date_now rt \<longrightarrow> ageInDays (ticketView rt t) = Some 0)
        \<and> (Date_now rt - created = 23 * 60 * 60 * 1000
             \<longrightarrow> ageInDays (ticketView rt t) = Some 1))"
proof (intro conjI impI allI)
  assume "get_open_tickets rt db i = TicketsFound s \<and> v \<in> set (ts_tickets s)"
  then show "\<exists>t\<in>set (tickets db). v = ticketView rt t"
    by (auto simp: get_open_tickets_def Let_def split: option.splits)
next
  fix d
  assume "Date_getTime rt (createdAt t) = Some created"
  then show "ageInDays (ticketView rt t) = Some d \<longleftrightarrow>
      (d - 1) * 86400000 < Date_now rt - created \<and> Date_now rt - created \<le> d * 86400000"
    by (simp add: ticketView_def ceilDays_iff)
next
  assume "Date_getTime rt (createdAt t) = Some created" and "created = Date_now rt"
  then show "ageInDays (ticketView rt t) = Some 0"
    by (simp add: ticketView_def ceilDays_iff)
next
  assume "Date_getTime rt (createdAt t) = Some created"
    and "Date_now rt - created = 23 * 60 * 60 * 1000"
  then show "ageInDays (ticketView rt t) = Some 1"
    by (simp add: ticketView_def ceilDays_iff)
qed

theorem ageInDays_witness:
  "(\<exists>s v. get_open_tickets exampleRuntime exampleDb ''ENT-001'' = TicketsFound s
        \<and> v \<in> set (ts_tickets s)
        \<and> (\<exists>t\<in>set (tickets exampleDb). v = ticketView exampleRuntime t))
   \<and> Date_getTime exampleRuntime
        (createdAt (mkTicket ''TKT-004'' ''ENT-001'' ''pending'' ''2023-11-13T23:13:20.000Z''))
       = Some 1699917200000
   \<and> Date_now exampleRuntime - 1699917200000 = 23 * 60 * 60 * 1000
   \<and> ageInDays (ticketView exampleRuntime
        (mkTicket ''TKT-004'' ''ENT-001'' ''pending'' ''2023-11-13T23:13:20.000Z'')) = Some 1
   \<and> Date_getTime exampleRuntime
        (createdAt (mkTicket ''TKT-003'' ''ENT-002'' ''in_progress'' ''2023-11-14T22:13:20.000Z''))
       = Some (Date_now exampleRuntime)
   \<and> ageInDays (ticketView exampleRuntime
        (mkTicket ''TKT-003'' ''ENT-002'' ''in_progress'' ''2023-11-14T22:13:20.000Z'')) = Some 0"
proof -
  let ?t1 = "mkTicket ''TKT-001'' ''ENT-001'' ''open'' ''2023-11-11T22:13:20.000Z''"
  let ?t3 = "mkTicket ''TKT-003'' ''ENT-002'' ''in_progress'' ''2023-11-14T22:13:20.000Z''"
  let ?t4 = "mkTicket ''TKT-004'' ''ENT-001'' ''pending'' ''2023-11-13T23:13:20.000Z''"
  let ?s = "\<lparr> ts_customerId = ''ENT-001'',
           ts_company = company acme,
           ts_tier = tier acme,
           openTicketCount = length (filter (isOpenTicketOf ''ENT-001'') (tickets exampleDb)),
           ts_tickets =
             map (ticketView exampleRuntime)
               (filter (isOpenTicketOf ''ENT-001'') (tickets exampleDb)),
           escalationRule = getProperty (escalationRules exampleDb) (tier acme) \<rparr>"
  have f: "List.find (\<lambda>c. cid c = ''ENT-001'') (customers exampleDb) = Some acme"
    by (simp add: exampleDb_def acme_def)
  have s: "get_open_tickets exampleRuntime exampleDb ''ENT-001'' = TicketsFound ?s"
    using f by (rule get_open_tickets_found)
  have o: "isOpenTicketOf ''ENT-001'' ?t1"
    by (simp add: isOpenTicketOf_def includes_arr_def mkTicket_def)
  have "?t1 \<in> set (tickets exampleDb)"
    by (simp add: exampleDb_def exampleTickets_def)
  with o have v: "ticketView exampleRuntime ?t1 \<in> set (ts_tickets ?s)"
    by simp
  have c4: "Date_getTime exampleRuntime (createdAt ?t4) = Some 1699917200000"
    by (simp add: exampleRuntime_def mkTicket_def)
  have n4: "Date_now exampleRuntime - 1699917200000 = 23 * 60 * 60 * 1000"
    by (simp add: exampleRuntime_def)
  have c3: "Date_getTime exampleRuntime (createdAt ?t3) = Some (Date_now exampleRuntime)"
    by (simp add: exampleRuntime_def mkTicket_def)
  have 1: "\<exists>t\<in>set (tickets exampleDb). ticketView exampleRuntime ?t1 = ticketView exampleRuntime t"
    using s v
      ageInDays_is_ceiling [of exampleRuntime exampleDb "''ENT-001''" ?s
        "ticketView exampleRuntime ?t1"]
    by blast
  have 2: "ageInDays (ticketView exampleRuntime ?t4) = Some 1"
    using c4 n4 ageInDays_is_ceiling [of exampleRuntime _ _ _ _ ?t4 1699917200000]
    by blast
  have 3: "ageInDays (ticketView exampleRuntime ?t3) = Some 0"
    using c3 ageInDays_is_ceiling [of exampleRuntime _ _ _ _ ?t3 "Date_now exampleRuntime"]
    by blast
  from s v 1 have "\<exists>s v. get_open_tickets exampleRuntime exampleDb ''ENT-001'' = TicketsFound s
        \<and> v \<in> set (ts_tickets s)
        \<and> (\<exists>t\<in>set (tickets exampleDb). v = ticketView exampleRuntime t)"
    by (intro exI [of _ ?s] exI [of _ "ticketView exampleRuntime ?t1"] conjI)
  with c4 n4 2 c3 3 show ?thesis
    by (intro conjI)
qed

subsection \<open>Response time target\<close>

text \<open>
  Claim C6 says that the response time target is the \<open>maxResponseTime\<close> of the rule
  of the customer's tier whenever that rule exists. A rule whose \<open>maxResponseTime\<close> is
  the empty string is a rule that exists, and the target is then the default, since
  \<^verbatim>\<open>||\<close> takes the empty string for absent.
\<close>

theorem responseTimeTarget_counterexample:
  "escalationRules blankDb (tier acmeLabs) = Some blankRule
   \<and> responseTimeTarget (generateSupportGuidance blankDb acmeLabs) \<noteq> maxResponseTime blankRule"
  by (simp add: generateSupportGuidance_def eval_defs)

text \<open>
  Claim C6, amended. The response time target is the \<open>maxResponseTime\<close> of the
  rule keyed by the customer's tier when that rule exists and its \<open>maxResponseTime\<close>
  is not empty; it is the default 24 hours when the tier has no rule, and also when
  the rule's \<open>maxResponseTime\<close> is empty.
\<close>

theorem responseTimeTarget_rule_or_default:
  "(escalationRules db (tier c) = Some r \<and> maxResponseTime r \<noteq> []
      \<longrightarrow> responseTimeTarget (generateSupportGuidance db c) = maxResponseTime r)
   \<and> (escalationRules db (tier c) = Some r \<and> maxResponseTime r = []
      \<longrightarrow> responseTimeTarget (generateSupportGuidance db c) = ''24 hours'')
   \<and> (escalationRules db (tier c) = None
      \<longrightarrow> responseTimeTarget (generateSupportGuidance db c) = ''24 hours'')"
  by (simp add: generateSupportGuidance_def Let_def getProperty_def)

theorem responseTimeTarget_witness:
  "escalationRules exampleDb (tier acme) = Some (the (exampleRules ''Enterprise''))
   \<and> responseTimeTarget (generateSupportGuidance exampleDb acme) = ''4 hours''
   \<and> escalationRules exampleDb (tier pilotLabs) = None
   \<and> responseTimeTarget (generateSupportGuidance exampleDb pilotLabs) = ''24 hours''
   \<and> escalationRules blankDb (tier acmeLabs) = Some blankRule
   \<and> responseTimeTarget (generateSupportGuidance blankDb acmeLabs) = ''24 hours''"
proof -
  have a: "escalationRules exampleDb (tier acme) = Some (the (exampleRules ''Enterprise''))
      \<and> maxResponseTime (the (exampleRules ''Enterprise'')) \<noteq> []"
    by (simp add: sample_defs)
  have a': "maxResponseTime (the (exampleRules ''Enterprise'')) = ''4 hours''"
    by (simp add: sample_defs)
  have p: "escalationRules exampleDb (tier pilotLabs) = None"
    by (simp add: sample_defs)
  have b: "escalationRules blankDb (tier acmeLabs) = Some blankRule \<and> maxResponseTime blankRule = []"
    by (simp add: sample_defs)
  show ?thesis
    using a a' p b
      responseTimeTarget_rule_or_default [of exampleDb acme "the (exampleRules ''Enterprise'')"]
      responseTimeTarget_rule_or_default [of exampleDb pilotLabs]
      responseTimeTarget_rule_or_default [of blankDb acmeLabs blankRule]
    by simp
qed

subsection \<open>Tone guidance\<close>

text \<open>
  The tone guidance of every call of \<open>generateResponseGuidance\<close>, and the one case in
  which there is none.
\<close>

lemma toneGuidance_of_result:
  "map_sum id toneGuidance (generateResponseGuidance rt db c issue) =
     (if issue = ''escalation'' \<and> getProperty (escalationRules db) (tier c) = Undefined
      then Inl TypeError
      else Inr ((if includes_str (tier c) ''Enterprise''
                 then [''Use professional, consultative tone'',
                       ''Reference their specific use case if known'',
                       ''Offer direct line or meeting for complex issues'']
                 else [''Friendly and helpful tone'', ''Clear, step-by-step guidance''])
                @ (if issue = ''escalation''
                   then [''Acknowledge frustration'', ''Provide concrete timeline'',
                         ''Take ownership'']
                   else [])))"
proof (cases "getProperty (escalationRules db) (tier c)")
  case Undefined
  then show ?thesis
    by (simp add: generateResponseGuidance_def Let_def push_def)
next
  case (Rule r)
  then show ?thesis
    by (simp add: generateResponseGuidance_def Let_def push_def)
next
  case Inherited
  then show ?thesis
    by (simp add: generateResponseGuidance_def Let_def push_def)
qed

text \<open>
  Claim C7 says that the tone guidance of a customer whose tier contains Enterprise
  starts with exactly two fixed lines. For the Enterprise customer of the sample data
  and a billing issue, which adds no escalation line, the list has three lines.
\<close>

theorem toneGuidance_counterexample:
  "includes_str (tier acme) ''Enterprise''
   \<and> map_sum id toneGuidance (generateResponseGuidance exampleRuntime exampleDb acme ''billing'') =
       Inr [''Use professional, consultative tone'',
            ''Reference their specific use case if known'',
            ''Offer direct line or meeting for complex issues'']"
  by (simp add: generateResponseGuidance_def eval_defs)

text \<open>
  Claim C7, amended. Whenever \<open>generateResponseGuidance\<close> returns, the tone guidance is
  three fixed lines when the tier contains Enterprise and two other fixed lines when
  it does not, followed by the three escalation lines when the issue type is
  escalation and by nothing for every other issue type.
\<close>

theorem toneGuidance_by_tier:
  "generateResponseGuidance rt db c issue = Inr g \<Longrightarrow>
     toneGuidance g =
       (if \<exists>ps ss. tier c = ps @ ''Enterprise'' @ ss
        then [''Use professional, consultative tone'',
              ''Reference their specific use case if known'',
              ''Offer direct line or meeting for complex issues'']
        else [''Friendly and helpful tone'', ''Clear, step-by-step guidance''])
       @ (if issue = ''escalation''
          then [''Acknowledge frustration'', ''Provide concrete timeline'', ''Take ownership'']
          else [])"

proof -
  assume a: "generateResponseGuidance rt db c issue = Inr g"
  have e: "(\<exists>ps ss. tier c = ps @ ''Enterprise'' @ ss) = includes_str (tier c) ''Enterprise''"
    by (simp add: includes_str_iff)
  have "map_sum id toneGuidance (generateResponseGuidance rt db c issue) = Inr (toneGuidance g)"
    by (simp add: a)
  then show ?thesis
    unfolding e toneGuidance_of_result by (simp split: if_splits)
qed

theorem toneGuidance_witness:
  "(\<exists>g. generateResponseGuidance exampleRuntime exampleDb brightIdeas ''escalation'' = Inr g
        \<and> toneGuidance g =
            [''Friendly and helpful tone'', ''Clear, step-by-step guidance'',
             ''Acknowledge frustration'', ''Provide concrete timeline'', ''Take ownership''])
   \<and> (\<exists>g. generateResponseGuidance exampleRuntime exampleDb globalFinance ''account'' = Inr g
        \<and> toneGuidance g =
            [''Use professional, consultative tone'',
             ''Reference their specific use case if known'',
             ''Offer direct line or meeting for complex issues''])"
proof -
  have "\<not> includes_str (tier brightIdeas) ''Enterprise''"
    by (simp add: eval_defs)
  then have nb: "\<not> (\<exists>ps ss. tier brightIdeas = ps @ ''Enterprise'' @ ss)"
    by (simp add: includes_str_iff)
  have "includes_str (tier globalFinance) ''Enterprise''"
    by (simp add: eval_defs)
  then have yg: "\<exists>ps ss. tier globalFinance = ps @ ''Enterprise'' @ ss"
    by (simp add: includes_str_iff)
  have "\<not> (\<exists>e. generateResponseGuidance exampleRuntime exampleDb brightIdeas ''escalation'' = Inl e)"
    unfolding generateResponseGuidance_throws_iff by (simp add: sample_defs)
  then obtain g1 where
    g1: "generateResponseGuidance exampleRuntime exampleDb brightIdeas ''escalation'' = Inr g1"
    by (cases "generateResponseGuidance exampleRuntime exampleDb brightIdeas ''escalation''") auto
  have "\<not> (\<exists>e. generateResponseGuidance exampleRuntime exampleDb globalFinance ''account'' = Inl e)"
    unfolding generateResponseGuidance_throws_iff by simp
  then obtain g2 where
    g2: "generateResponseGuidance exampleRuntime exampleDb globalFinance ''account'' = Inr g2"
    by (cases "generateResponseGuidance exampleRuntime exampleDb globalFinance ''account''") auto
  have t1: "toneGuidance g1 =
      [''Friendly and helpful tone'', ''Clear, step-by-step guidance'',
       ''Acknowledge frustration'', ''Provide concrete timeline'', ''Take ownership'']"
    using toneGuidance_by_tier [OF g1] nb by simp
  have t2: "toneGuidance g2 =
      [''Use professional, consultative tone'',
       ''Reference their specific use case if known'',
       ''Offer direct line or meeting for complex issues'']"
    using toneGuidance_by_tier [OF g2] yg by simp
  show ?thesis
    using g1 t1 g2 t2 by (intro conjI exI [of _ g1] exI [of _ g2])
qed

subsection \<open>Identifiers that differ in letter case\<close>

lemma find_by_id_none: "\<forall>c'\<in>set cs. cid c' \<noteq> s \<Longrightarrow> List.find (\<lambda>c. cid c = s) cs = None"
  by (simp add: find_None_iff)

text \<open>
  Claim C9 says that for a stored customer and a string that differs from its id in
  letter case only, \<open>get_open_tickets\<close> and \<open>get_response_guidance\<close> return the
  not-found payload while \<open>lookup_customer\<close> resolves that customer. Three databases
  show where this fails. Where the string is the id of another stored customer, the
  two handlers find that one. Where an earlier stored customer matches the string,
  \<open>lookup_customer\<close> resolves the earlier one, also when no stored id equals the
  string. And where lower-casing the id and lower-casing the string give different
  results, as for the id \<open>odosUpper\<close> and its small form \<open>odosSmall\<close>,
  \<open>lookup_customer\<close> finds no customer.
\<close>

theorem case_variant_id_counterexample:
  "acme \<in> set (customers twinDb) \<and> ''ent-001'' \<noteq> cid acme
   \<and> toLowerCase exampleRuntime ''ent-001'' = toLowerCase exampleRuntime (cid acme)
   \<and> get_open_tickets exampleRuntime twinDb ''ent-001'' \<noteq> TicketsNotFound (idMiss ''ent-001'')
   \<and> get_response_guidance exampleRuntime twinDb ''ent-001'' billing
       \<noteq> Inr (GuidanceNotFound (idMiss ''ent-001''))
   \<and> acme \<in> set (customers cousinDb)
   \<and> customers cousinDb = [acmeHoldings, acme]
   \<and> cid acmeHoldings \<noteq> ''ent-001'' \<and> cid acme \<noteq> ''ent-001''
   \<and> lookup_customer exampleRuntime cousinDb ''ent-001''
       \<noteq> LookupFound (lookupContext exampleRuntime cousinDb acme)
   \<and> customers greekIdDb = [odosById] \<and> cid odosById = odosUpper
   \<and> odosSmall \<noteq> odosUpper
   \<and> lookup_customer greekRuntime greekIdDb odosSmall =
       LookupNotFound
         \<lparr> lm_found = False,
           lm_message = ''No customer found matching \"'' @ odosSmall @ ''\"'',
           suggestion = ''Try searching by company name or customer ID (e.g., ENT-001)'' \<rparr>"
proof -
  have f: "List.find (\<lambda>c. cid c = ''ent-001'') (customers twinDb) = Some acmeLabs"
    by (simp add: sample_defs)
  have 1: "acme \<in> set (customers twinDb) \<and> ''ent-001'' \<noteq> cid acme
      \<and> toLowerCase exampleRuntime ''ent-001'' = toLowerCase exampleRuntime (cid acme)
      \<and> acme \<in> set (customers cousinDb)
      \<and> customers cousinDb = [acmeHoldings, acme]
      \<and> cid acmeHoldings \<noteq> ''ent-001'' \<and> cid acme \<noteq> ''ent-001''"
    by (simp add: eval_defs)
  have 2: "get_open_tickets exampleRuntime twinDb ''ent-001'' \<noteq> TicketsNotFound (idMiss ''ent-001'')"
    by (simp add: get_open_tickets_def f Let_def)
  have 3: "get_response_guidance exampleRuntime twinDb ''ent-001'' billing
       \<noteq> Inr (GuidanceNotFound (idMiss ''ent-001''))"
    by (simp add: get_response_guidance_def f split: sum.splits)
  have l: "List.find (matchesQuery exampleRuntime (toLowerCase exampleRuntime ''ent-001''))
      (customers cousinDb) = Some acmeHoldings"
    by (simp add: matchesQuery_def eval_defs)
  have d: "cc_id (lc_customer (lookupContext exampleRuntime cousinDb acmeHoldings))
      \<noteq> cc_id (lc_customer (lookupContext exampleRuntime cousinDb acme))"
    by (simp add: lookupContext_def Let_def acmeHoldings_def acme_def)
  have 4: "lookup_customer exampleRuntime cousinDb ''ent-001''
       \<noteq> LookupFound (lookupContext exampleRuntime cousinDb acme)"
    using d by (auto simp: lookup_customer_def l)
  have 5: "customers greekIdDb = [odosById] \<and> cid odosById = odosUpper
      \<and> odosSmall \<noteq> odosUpper"
    by (simp add: greekIdDb_def odosById_def odosSmall_def odosUpper_def)
  have ls: "toLowerCase greekRuntime odosSmall = odosSmall"
    by (simp add: toLowerCase_def greek_defs asciiLowerCase_def asciiLowerChar_def)
  have n: "\<not> matchesQuery greekRuntime odosSmall odosById"
    by (simp add: matchesQuery_def greek_defs eval_defs)
  have "List.find (matchesQuery greekRuntime odosSmall) (customers greekIdDb) = None"
    using n 5 by simp
  then have 6: "lookup_customer greekRuntime greekIdDb odosSmall =
       LookupNotFound
         \<lparr> lm_found = False,
           lm_message = ''No customer found matching \"'' @ odosSmall @ ''\"'',
           suggestion = ''Try searching by company name or customer ID (e.g., ENT-001)'' \<rparr>"
    by (simp add: lookup_customer_def ls)
  show ?thesis
    using 1 2 3 4 5 6 by (intro conjI) simp_all
qed

text \<open>
  Claim C9, amended. For a stored customer and a string that is not the id of any
  stored customer, differs from the customer's id, and has the same lower-cased form
  as that id, \<open>get_open_tickets\<close> and \<open>get_response_guidance\<close> return the not-found
  payload, while \<open>lookup_customer\<close> with that string returns, with \<open>found\<close> true,
  the first customer in stored order that the string matches (lower-cased id equal to
  the lower-cased string, or lower-cased company name containing it): the customer
  itself when no customer stored before it matches the string.
\<close>

theorem case_variant_id_not_found:
  assumes "c \<in> set (customers db)" and "s \<noteq> cid c"
    and "toLowerCase rt s = toLowerCase rt (cid c)"
    and "\<forall>c'\<in>set (customers db). cid c' \<noteq> s"
  shows "get_open_tickets rt db s = TicketsNotFound (idMiss s)
     \<and> get_response_guidance rt db s issue = Inr (GuidanceNotFound (idMiss s))
     \<and> (\<exists>pre c' post. customers db = pre @ c' # post \<and> specMatch rt s c'
          \<and> (\<forall>x\<in>set pre. \<not> specMatch rt s x)
          \<and> lookup_customer rt db s = LookupFound (lookupContext rt db c')
          \<and> lc_found (lookupContext rt db c')
          \<and> cc_id (lc_customer (lookupContext rt db c')) = cid c')
     \<and> ((\<exists>pre post. customers db = pre @ c # post \<and> (\<forall>x\<in>set pre. \<not> specMatch rt s x))
          \<longrightarrow> lookup_customer rt db s = LookupFound (lookupContext rt db c)
              \<and> cc_id (lc_customer (lookupContext rt db c)) = cid c)"
proof -
  have n: "List.find (\<lambda>c. cid c = s) (customers db) = None"
    using assms(4) by (rule find_by_id_none)
  have m: "specMatch rt s c"
    using assms(3) by (simp add: specMatch_def)
  then have "matchesQuery rt (toLowerCase rt s) c"
    by (simp add: specMatch_iff)
  with assms(1) obtain c' where
    f: "List.find (matchesQuery rt (toLowerCase rt s)) (customers db) = Some c'"
    using find_exists [of c "customers db" "matchesQuery rt (toLowerCase rt s)"] by blast
  from find_split [OF f] obtain pre post where
    sp: "customers db = pre @ c' # post" and mc: "matchesQuery rt (toLowerCase rt s) c'"
    and np: "\<forall>y\<in>set pre. \<not> matchesQuery rt (toLowerCase rt s) y"
    by blast
  have 1: "get_open_tickets rt db s = TicketsNotFound (idMiss s)"
    by (simp add: get_open_tickets_def n)
  have 2: "get_response_guidance rt db s issue = Inr (GuidanceNotFound (idMiss s))"
    by (simp add: get_response_guidance_def n)
  have l: "lookup_customer rt db s = LookupFound (lookupContext rt db c')"
    using f by (simp add: lookup_customer_def)
  have "customers db = pre @ c' # post \<and> specMatch rt s c'
          \<and> (\<forall>x\<in>set pre. \<not> specMatch rt s x)
          \<and> lookup_customer rt db s = LookupFound (lookupContext rt db c')
          \<and> lc_found (lookupContext rt db c')
          \<and> cc_id (lc_customer (lookupContext rt db c')) = cid c'"
    using sp mc np l lookupContext_fields [of rt db c'] by (simp add: specMatch_iff)
  then have 3: "\<exists>pre c' post. customers db = pre @ c' # post \<and> specMatch rt s c'
          \<and> (\<forall>x\<in>set pre. \<not> specMatch rt s x)
          \<and> lookup_customer rt db s = LookupFound (lookupContext rt db c')
          \<and> lc_found (lookupContext rt db c')
          \<and> cc_id (lc_customer (lookupContext rt db c')) = cid c'"
    by blast
  have 4: "lookup_customer rt db s = LookupFound (lookupContext rt db c)
      \<and> cc_id (lc_customer (lookupContext rt db c)) = cid c"
    if "\<exists>pre post. customers db = pre @ c # post \<and> (\<forall>x\<in>set pre. \<not> specMatch rt s x)"
  proof -
    from that obtain pre post where
      p: "customers db = pre @ c # post" and q: "\<forall>x\<in>set pre. \<not> specMatch rt s x"
      by blast
    have "List.find (matchesQuery rt (toLowerCase rt s)) (customers db) = Some c"
      using p m q by (intro find_first [of _ pre c post]) (simp_all add: specMatch_iff)
    then show ?thesis
      by (simp add: lookup_customer_def lookupContext_fields)
  qed
  show ?thesis
    using 1 2 3 4 by blast
qed

theorem case_variant_id_witness:
  "acme \<in> set (customers exampleDb) \<and> ''ent-001'' \<noteq> cid acme
   \<and> toLowerCase exampleRuntime ''ent-001'' = toLowerCase exampleRuntime (cid acme)
   \<and> get_open_tickets exampleRuntime exampleDb ''ent-001'' = TicketsNotFound (idMiss ''ent-001'')
   \<and> get_response_guidance exampleRuntime exampleDb ''ent-001'' escalation
       = Inr (GuidanceNotFound (idMiss ''ent-001''))
   \<and> lookup_customer exampleRuntime exampleDb ''ent-001''
       = LookupFound (lookupContext exampleRuntime exampleDb acme)
   \<and> cc_id (lc_customer (lookupContext exampleRuntime exampleDb acme)) = ''ENT-001''"
proof -
  have a: "acme \<in> set (customers exampleDb)"
    by (simp add: exampleDb_def)
  have b: "''ent-001'' \<noteq> cid acme"
    by (simp add: acme_def)
  have c: "toLowerCase exampleRuntime ''ent-001'' = toLowerCase exampleRuntime (cid acme)"
    by (simp add: eval_defs)
  have d: "\<forall>c'\<in>set (customers exampleDb). cid c' \<noteq> ''ent-001''"
    by (simp add: sample_defs)
  have e: "\<exists>pre post. customers exampleDb = pre @ acme # post
      \<and> (\<forall>x\<in>set pre. \<not> specMatch exampleRuntime ''ent-001'' x)"
    by (rule exI [of _ "[]"], rule exI [of _ "[globalFinance, brightIdeas, pilotLabs]"])
      (simp add: exampleDb_def)
  have i: "cid acme = ''ENT-001''"
    by (simp add: acme_def)
  have r: "get_open_tickets exampleRuntime exampleDb ''ent-001'' = TicketsNotFound (idMiss ''ent-001'')
      \<and> get_response_guidance exampleRuntime exampleDb ''ent-001'' escalation
          = Inr (GuidanceNotFound (idMiss ''ent-001''))
      \<and> lookup_customer exampleRuntime exampleDb ''ent-001''
          = LookupFound (lookupContext exampleRuntime exampleDb acme)
      \<and> cc_id (lc_customer (lookupContext exampleRuntime exampleDb acme)) = cid acme"
    using e case_variant_id_not_found [OF a b c d, of escalation]
    by blast
  show ?thesis
    using a b c r i by simp
qed

end
